theory Spec2Isabelle
  imports Main "HOL-Library.Word"
begin

section \<open>The MC protocol (3E frame) client of \<^verbatim>\<open>mcp/client_alive.go\<close>\<close>

text \<open>
  The file holds two variants of \<^verbatim>\<open>client3EAlive\<close>: the persistent one (lines 1--242),
  which acquires its connection through \<^verbatim>\<open>getConnection\<close> and tears it down after a
  failed write or read, and the explicit one (lines 243--408), whose caller dials with
  \<^verbatim>\<open>Connect\<close>. Both are embedded here as functions that take the client and the
  world (the sockets and the network) and return the result with the updated client and
  world. Calls are sequential: the mutex of the persistent variant is taken and released in
  balanced pairs and has no effect on a single thread, so it is not part of the state.
\<close>

subsection \<open>Values, errors and panics\<close>

type_synonym byte = "8 word"
type_synonym int64 = "64 word"
type_synonym sock = nat

text \<open>
  A Go \<^verbatim>\<open>error\<close> value. \<open>ErrLength\<close> and \<open>InvalidByteError\<close> are the two errors of
  \<^verbatim>\<open>encoding/hex\<close>; \<open>ErrNetClosing\<close> is what package \<^verbatim>\<open>net\<close> returns for a socket
  that this process has closed; \<open>NetError\<close> is any other failure of the network, with a
  code chosen by the environment; \<open>ErrorsNew\<close> is \<^verbatim>\<open>errors.New\<close> with its message.
\<close>

datatype error =
    ErrLength
  | InvalidByteError char
  | ErrNetClosing
  | NetError nat
  | ErrorsNew string

text \<open>
  A run-time panic: a method call on the nil \<^verbatim>\<open>net.Conn\<close> interface, or \<^verbatim>\<open>make\<close>
  with a length that is negative or beyond the largest length the runtime accepts.
\<close>

datatype gopanic = NilDereference | MakesliceLenOutOfRange

text \<open>
  A fatal error of the runtime, which ends the process and cannot be recovered: the
  allocator has no memory for a length that \<^verbatim>\<open>make\<close> accepted.
\<close>

datatype gofatal = OutOfMemory

text \<open>How a call ends: with a panic, with a fatal error, or by returning.\<close>

datatype 'a ret = Panic gopanic | Fatal gofatal | Return 'a

subsection \<open>\<^verbatim>\<open>hex.DecodeString\<close> and \<^verbatim>\<open>fmt.Sprintf("%X", bytes)\<close>\<close>

text \<open>
  The table of \<^verbatim>\<open>encoding/hex\<close>: the value of a hexadecimal digit of either case, and
  \<open>0xff\<close> for every other character.
\<close>

definition reverseHexTable :: "char \<Rightarrow> byte" where
  "reverseHexTable c =
     (let n = (of_char c :: nat) in
      if 48 \<le> n \<and> n \<le> 57 then of_nat (n - 48)
      else if 97 \<le> n \<and> n \<le> 102 then of_nat (n - 87)
      else if 65 \<le> n \<and> n \<le> 70 then of_nat (n - 55)
      else 0xff)"

text \<open>
  \<^verbatim>\<open>hex.Decode\<close>: two characters make a byte; the first character that is no digit is
  reported; an odd length is reported after the pairs before it have been checked.
\<close>

fun Decode :: "string \<Rightarrow> error + byte list" where
  "Decode [] = Inr []"
| "Decode [p] =
     (if reverseHexTable p > 0x0f then Inl (InvalidByteError p) else Inl ErrLength)"
| "Decode (p # q # rest) =
     (let a = reverseHexTable p; b = reverseHexTable q in
      if a > 0x0f then Inl (InvalidByteError p)
      else if b > 0x0f then Inl (InvalidByteError q)
      else (case Decode rest of
              Inl err \<Rightarrow> Inl err
            | Inr bs \<Rightarrow> Inr ((a * 16 + b) # bs)))"

definition DecodeString :: "string \<Rightarrow> error + byte list" where
  "DecodeString s = Decode s"

text \<open>The digits of \<^verbatim>\<open>%X\<close> in package \<^verbatim>\<open>fmt\<close>.\<close>

definition udigits :: string where
  "udigits = ''0123456789ABCDEF''"

text \<open>\<^verbatim>\<open>fmt.Sprintf("%X", b)\<close> for a byte slice: two upper-case digits for each byte.\<close>

fun SprintfX :: "byte list \<Rightarrow> string" where
  "SprintfX [] = []"
| "SprintfX (b # bs) = udigits ! (unat b div 16) # udigits ! (unat b mod 16) # SprintfX bs"

subsection \<open>The world: sockets and the network\<close>

text \<open>
  What the network does is not decided by the program. The world carries a script of the
  outcomes of the network calls still to come, one for each call that reaches the
  network: a failure with its code, or a success, which for a read carries the bytes
  the peer delivers. When the script is used up every further call fails with code 0.
  Every statement below holds for all scripts. The sockets have no deadline, so a real
  call may also block for ever; such a run has no result and is not part of the model.
\<close>

datatype outcome = Fails nat | Succeeds "byte list"

text \<open>The calls made on package \<^verbatim>\<open>net\<close>, in the order they were made.\<close>

datatype event =
    EvDial string
  | EvWrite sock "byte list"
  | EvRead sock nat
  | EvClose sock

text \<open>
  \<open>socks\<close> has one entry for each socket dialed so far, \<open>True\<close> while it has not been
  closed; a socket is its index. \<open>maxAlloc\<close> is the largest length the runtime's
  \<^verbatim>\<open>make\<close> accepts (a constant of the Go runtime, fixed by the platform), and
  \<open>memAvail\<close> is the largest buffer the machine can back when the call is made. Both
  are parameters: no statement below fixes their values.
\<close>

record world =
  script :: "outcome list"
  socks :: "bool list"
  trace :: "event list"
  maxAlloc :: int
  memAvail :: int

definition is_open :: "world \<Rightarrow> sock \<Rightarrow> bool" where
  "is_open w s = (s < length (socks w) \<and> socks w ! s)"

definition next_outcome :: "world \<Rightarrow> outcome \<times> world" where
  "next_outcome w =
     (case script w of
        [] \<Rightarrow> (Fails 0, w)
      | x # xs \<Rightarrow> (x, w\<lparr>script := xs\<rparr>))"

definition logged :: "event \<Rightarrow> world \<Rightarrow> world" where
  "logged e w = w\<lparr>trace := trace w @ [e]\<rparr>"

text \<open>\<^verbatim>\<open>net.DialTCP("tcp", nil, addr)\<close>: a new open socket, or an error.\<close>

definition DialTCP :: "string \<Rightarrow> world \<Rightarrow> (error + sock) \<times> world" where
  "DialTCP addr w =
     (case next_outcome (logged (EvDial addr) w) of
        (Fails e, w1) \<Rightarrow> (Inl (NetError e), w1)
      | (Succeeds _, w1) \<Rightarrow> (Inr (length (socks w1)), w1\<lparr>socks := socks w1 @ [True]\<rparr>))"

text \<open>
  \<^verbatim>\<open>conn.Write(p)\<close>: on a socket closed by this process it fails without reaching the
  network; otherwise the network decides. On success all of \<open>p\<close> was written.
\<close>

definition conn_Write :: "sock \<Rightarrow> byte list \<Rightarrow> world \<Rightarrow> (error + nat) \<times> world" where
  "conn_Write s p w =
     (if \<not> is_open w s then (Inl ErrNetClosing, logged (EvWrite s p) w)
      else (case next_outcome (logged (EvWrite s p) w) of
              (Fails e, w1) \<Rightarrow> (Inl (NetError e), w1)
            | (Succeeds _, w1) \<Rightarrow> (Inr (length p), w1)))"

text \<open>
  \<^verbatim>\<open>conn.Read(buf)\<close>: one read. It fills a prefix of \<open>buf\<close> with the bytes delivered,
  never more than \<open>buf\<close> holds, and returns the number of bytes read with the buffer.
\<close>

definition conn_Read :: "sock \<Rightarrow> byte list \<Rightarrow> world \<Rightarrow> (error + nat \<times> byte list) \<times> world" where
  "conn_Read s buf w =
     (if \<not> is_open w s then (Inl ErrNetClosing, logged (EvRead s (length buf)) w)
      else (case next_outcome (logged (EvRead s (length buf)) w) of
              (Fails e, w1) \<Rightarrow> (Inl (NetError e), w1)
            | (Succeeds bs, w1) \<Rightarrow>
                (let d = take (length buf) bs
                 in (Inr (length d, d @ drop (length d) buf), w1))))"

text \<open>\<^verbatim>\<open>conn.Close()\<close>: closing a socket twice is an error.\<close>

definition conn_Close :: "sock \<Rightarrow> world \<Rightarrow> error option \<times> world" where
  "conn_Close s w =
     (if is_open w s then (None, (logged (EvClose s) w)\<lparr>socks := (socks w)[s := False]\<rparr>)
      else (Some ErrNetClosing, logged (EvClose s) w))"

text \<open>
  \<^verbatim>\<open>make([]byte, n)\<close> for an \<^verbatim>\<open>int64\<close> expression \<open>n\<close>: the length is the signed value of
  the 64-bit result. The runtime panics when it is negative or beyond \<open>maxAlloc\<close>;
  for a length it accepts, the process ends with a fatal out-of-memory error when the
  machine cannot back the buffer; otherwise the buffer is returned, filled with zeros.
  The two buffers of fixed length in this file (30 and 22 bytes) are taken to be
  always available.
\<close>

definition make_bytes :: "world \<Rightarrow> int64 \<Rightarrow> byte list ret" where
  "make_bytes w n =
     (if sint n < 0 \<or> maxAlloc w < sint n then Panic MakesliceLenOutOfRange
      else if memAvail w < sint n then Fatal OutOfMemory
      else Return (replicate (nat (sint n)) 0))"

text \<open>\<^verbatim>\<open>b[lo:hi]\<close>, used only where \<open>hi \<le> length b\<close>.\<close>

definition subslice :: "byte list \<Rightarrow> nat \<Rightarrow> nat \<Rightarrow> byte list" where
  "subslice b lo hi = take (hi - lo) (drop lo b)"

subsection \<open>The station and the client\<close>

text \<open>
  Type \<^verbatim>\<open>station\<close> is declared outside this file; the client only calls its four
  request builders, which are taken as parameters.
\<close>

record station =
  BuildHealthCheckRequest :: string
  BuildReadRequest :: "string \<Rightarrow> int64 \<Rightarrow> int64 \<Rightarrow> string"
  BuildBitReadRequest :: "string \<Rightarrow> int64 \<Rightarrow> int64 \<Rightarrow> string"
  BuildWriteRequest :: "string \<Rightarrow> int64 \<Rightarrow> int64 \<Rightarrow> byte list \<Rightarrow> string"

text \<open>\<open>conn = None\<close> is the nil interface value.\<close>

record client3EAlive =
  conn :: "sock option"
  tcpAddr :: string
  stn :: station

subsection \<open>The persistent variant (lines 1--242)\<close>

text \<open>Lines 37--43 of \<^verbatim>\<open>getConnection\<close>: dial, and store the new socket on success.\<close>

definition dialAndStore ::
  "client3EAlive \<Rightarrow> world \<Rightarrow> (error + sock) \<times> client3EAlive \<times> world" where
  "dialAndStore c w =
     (case DialTCP (tcpAddr c) w of
        (Inl err, w1) \<Rightarrow> (Inl err, c, w1)
      | (Inr s, w1) \<Rightarrow> (Inr s, c\<lparr>conn := Some s\<rparr>, w1))"

text \<open>
  \<^verbatim>\<open>getConnection\<close> (lines 22--44): a stored socket is probed with a write of no bytes;
  when the probe fails the socket is closed and forgotten before dialing.
\<close>

definition getConnection ::
  "client3EAlive \<Rightarrow> world \<Rightarrow> (error + sock) \<times> client3EAlive \<times> world" where
  "getConnection c w =
     (case conn c of
        None \<Rightarrow> dialAndStore c w
      | Some s \<Rightarrow>
          (case conn_Write s [] w of
             (Inr _, w1) \<Rightarrow> (Inr s, c, w1)
           | (Inl _, w1) \<Rightarrow> dialAndStore (c\<lparr>conn := None\<rparr>) (snd (conn_Close s w1))))"

text \<open>\<^verbatim>\<open>Close\<close> (lines 47--57).\<close>

definition Close :: "client3EAlive \<Rightarrow> world \<Rightarrow> error option \<times> client3EAlive \<times> world" where
  "Close c w =
     (case conn c of
        Some s \<Rightarrow> (case conn_Close s w of (err, w1) \<Rightarrow> (err, c\<lparr>conn := None\<rparr>, w1))
      | None \<Rightarrow> (None, c, w))"

text \<open>
  The block that follows a failed write or read in every operation of the persistent
  variant (lines 77--81, 89--93 and their copies): \<^verbatim>\<open>c.conn.Close(); c.conn = nil\<close>, then
  return \<open>r\<close>. It calls \<^verbatim>\<open>Close\<close> on the stored field, not on the local \<^verbatim>\<open>conn\<close>, and so
  would panic on a nil field.
\<close>

definition closeAndReturn ::
  "'a \<Rightarrow> client3EAlive \<Rightarrow> world \<Rightarrow> 'a ret \<times> client3EAlive \<times> world" where
  "closeAndReturn r c w =
     (case conn c of
        None \<Rightarrow> (Panic NilDereference, c, w)
      | Some s \<Rightarrow> (Return r, c\<lparr>conn := None\<rparr>, snd (conn_Close s w)))"

text \<open>
  The checks on the response of \<^verbatim>\<open>HealthCheck\<close> (lines 96--112, and the same text at
  lines 307--323) for \<open>readLen\<close> bytes read into \<open>readBuff\<close>. The two slices are taken
  only when \<open>readLen = 18\<close>, so they are in range.
\<close>

definition checkResponse :: "nat \<Rightarrow> byte list \<Rightarrow> error option" where
  "checkResponse readLen readBuff =
     (let resp = take readLen readBuff in
      if readLen \<noteq> 18 then
        Some (ErrorsNew (''plc connect test is fail: return length is ['' @ SprintfX resp @ '']''))
      else if ''0500'' \<noteq> SprintfX (subslice resp 11 13) then
        Some (ErrorsNew (''plc connect test is fail: return header is [''
                           @ SprintfX (subslice resp 11 13) @ '']''))
      else if ''4142434445'' \<noteq> SprintfX (subslice resp 13 18) then
        Some (ErrorsNew (''plc connect test is fail: return body is [''
                           @ SprintfX (subslice resp 13 18) @ '']''))
      else None)"

text \<open>\<^verbatim>\<open>HealthCheck\<close> (lines 60--113). The result \<open>None\<close> is the nil error.\<close>

definition HealthCheck ::
  "client3EAlive \<Rightarrow> world \<Rightarrow> error option ret \<times> client3EAlive \<times> world" where
  "HealthCheck c w =
     (case DecodeString (BuildHealthCheckRequest (stn c)) of
        Inl err \<Rightarrow> (Return (Some err), c, w)
      | Inr payload \<Rightarrow>
          (case getConnection c w of
             (Inl err, c1, w1) \<Rightarrow> (Return (Some err), c1, w1)
           | (Inr cn, c1, w1) \<Rightarrow>
               (case conn_Write cn payload w1 of
                  (Inl err, w2) \<Rightarrow> closeAndReturn (Some err) c1 w2
                | (Inr _, w2) \<Rightarrow>
                    (case conn_Read cn (replicate 30 0) w2 of
                       (Inl err, w3) \<Rightarrow> closeAndReturn (Some err) c1 w3
                     | (Inr (readLen, readBuff), w3) \<Rightarrow>
                         (Return (checkResponse readLen readBuff), c1, w3)))))"

text \<open>
  \<^verbatim>\<open>Read\<close> (lines 116--153). The buffer length \<^verbatim>\<open>22+2*numPoints\<close> is computed in
  \<^verbatim>\<open>int64\<close>, so it wraps around. A panic or a fatal error in \<^verbatim>\<open>make\<close> ends the call
  where it stands, after the write and before the read.
\<close>

definition Read ::
  "client3EAlive \<Rightarrow> world \<Rightarrow> string \<Rightarrow> int64 \<Rightarrow> int64 \<Rightarrow>
     (error + byte list) ret \<times> client3EAlive \<times> world" where
  "Read c w deviceName offset numPoints =
     (case DecodeString (BuildReadRequest (stn c) deviceName offset numPoints) of
        Inl err \<Rightarrow> (Return (Inl err), c, w)
      | Inr payload \<Rightarrow>
          (case getConnection c w of
             (Inl err, c1, w1) \<Rightarrow> (Return (Inl err), c1, w1)
           | (Inr cn, c1, w1) \<Rightarrow>
               (case conn_Write cn payload w1 of
                  (Inl err, w2) \<Rightarrow> closeAndReturn (Inl err) c1 w2
                | (Inr _, w2) \<Rightarrow>
                    (case make_bytes w2 (22 + 2 * numPoints) of
                       Panic p \<Rightarrow> (Panic p, c1, w2)
                     | Fatal f \<Rightarrow> (Fatal f, c1, w2)
                     | Return buf \<Rightarrow>
                         (case conn_Read cn buf w2 of
                            (Inl err, w3) \<Rightarrow> closeAndReturn (Inl err) c1 w3
                          | (Inr (readLen, readBuff), w3) \<Rightarrow>
                              (Return (Inr (take readLen readBuff)), c1, w3))))))"

text \<open>\<^verbatim>\<open>BitRead\<close> (lines 156--193): as \<^verbatim>\<open>Read\<close>, with the bit-read request.\<close>

definition BitRead ::
  "client3EAlive \<Rightarrow> world \<Rightarrow> string \<Rightarrow> int64 \<Rightarrow> int64 \<Rightarrow>
     (error + byte list) ret \<times> client3EAlive \<times> world" where
  "BitRead c w deviceName offset numPoints =
     (case DecodeString (BuildBitReadRequest (stn c) deviceName offset numPoints) of
        Inl err \<Rightarrow> (Return (Inl err), c, w)
      | Inr payload \<Rightarrow>
          (case getConnection c w of
             (Inl err, c1, w1) \<Rightarrow> (Return (Inl err), c1, w1)
           | (Inr cn, c1, w1) \<Rightarrow>
               (case conn_Write cn payload w1 of
                  (Inl err, w2) \<Rightarrow> closeAndReturn (Inl err) c1 w2
                | (Inr _, w2) \<Rightarrow>
                    (case make_bytes w2 (22 + 2 * numPoints) of
                       Panic p \<Rightarrow> (Panic p, c1, w2)
                     | Fatal f \<Rightarrow> (Fatal f, c1, w2)
                     | Return buf \<Rightarrow>
                         (case conn_Read cn buf w2 of
                            (Inl err, w3) \<Rightarrow> closeAndReturn (Inl err) c1 w3
                          | (Inr (readLen, readBuff), w3) \<Rightarrow>
                              (Return (Inr (take readLen readBuff)), c1, w3))))))"

text \<open>\<^verbatim>\<open>Write\<close> (lines 196--233): the buffer for the answer has 22 bytes.\<close>

definition Write ::
  "client3EAlive \<Rightarrow> world \<Rightarrow> string \<Rightarrow> int64 \<Rightarrow> int64 \<Rightarrow> byte list \<Rightarrow>
     (error + byte list) ret \<times> client3EAlive \<times> world" where
  "Write c w deviceName offset numPoints writeData =
     (case DecodeString (BuildWriteRequest (stn c) deviceName offset numPoints writeData) of
        Inl err \<Rightarrow> (Return (Inl err), c, w)
      | Inr payload \<Rightarrow>
          (case getConnection c w of
             (Inl err, c1, w1) \<Rightarrow> (Return (Inl err), c1, w1)
           | (Inr cn, c1, w1) \<Rightarrow>
               (case conn_Write cn payload w1 of
                  (Inl err, w2) \<Rightarrow> closeAndReturn (Inl err) c1 w2
                | (Inr _, w2) \<Rightarrow>
                    (case conn_Read cn (replicate 22 0) w2 of
                       (Inl err, w3) \<Rightarrow> closeAndReturn (Inl err) c1 w3
                     | (Inr (readLen, readBuff), w3) \<Rightarrow>
                         (Return (Inr (take readLen readBuff)), c1, w3)))))"

subsection \<open>The explicit variant (lines 243--408)\<close>

text \<open>
  \<^verbatim>\<open>Connect\<close> (lines 261--273): a stored socket is closed but the field is not cleared
  before dialing.
\<close>

definition Connect :: "client3EAlive \<Rightarrow> world \<Rightarrow> error option \<times> client3EAlive \<times> world" where
  "Connect c w =
     (let w0 = (case conn c of None \<Rightarrow> w | Some s \<Rightarrow> snd (conn_Close s w)) in
      case DialTCP (tcpAddr c) w0 of
        (Inl err, w1) \<Rightarrow> (Some err, c, w1)
      | (Inr s, w1) \<Rightarrow> (None, c\<lparr>conn := Some s\<rparr>, w1))"

text \<open>\<^verbatim>\<open>Close\<close> (lines 276--283).\<close>

definition Close_explicit ::
  "client3EAlive \<Rightarrow> world \<Rightarrow> error option \<times> client3EAlive \<times> world" where
  "Close_explicit c w =
     (case conn c of
        Some s \<Rightarrow> (case conn_Close s w of (err, w1) \<Rightarrow> (err, c\<lparr>conn := None\<rparr>, w1))
      | None \<Rightarrow> (None, c, w))"

text \<open>
  The operations write to and read from \<^verbatim>\<open>c.conn\<close> with no check for nil: on a nil
  field the method call panics.
\<close>

definition HealthCheck_explicit ::
  "client3EAlive \<Rightarrow> world \<Rightarrow> error option ret \<times> client3EAlive \<times> world" where
  "HealthCheck_explicit c w =
     (case DecodeString (BuildHealthCheckRequest (stn c)) of
        Inl err \<Rightarrow> (Return (Some err), c, w)
      | Inr payload \<Rightarrow>
          (case conn c of
             None \<Rightarrow> (Panic NilDereference, c, w)
           | Some cn \<Rightarrow>
               (case conn_Write cn payload w of
                  (Inl err, w2) \<Rightarrow> (Return (Some err), c, w2)
                | (Inr _, w2) \<Rightarrow>
                    (case conn_Read cn (replicate 30 0) w2 of
                       (Inl err, w3) \<Rightarrow> (Return (Some err), c, w3)
                     | (Inr (readLen, readBuff), w3) \<Rightarrow>
                         (Return (checkResponse readLen readBuff), c, w3)))))"

definition Read_explicit ::
  "client3EAlive \<Rightarrow> world \<Rightarrow> string \<Rightarrow> int64 \<Rightarrow> int64 \<Rightarrow>
     (error + byte list) ret \<times> client3EAlive \<times> world" where
  "Read_explicit c w deviceName offset numPoints =
     (case DecodeString (BuildReadRequest (stn c) deviceName offset numPoints) of
        Inl err \<Rightarrow> (Return (Inl err), c, w)
      | Inr payload \<Rightarrow>
          (case conn c of
             None \<Rightarrow> (Panic NilDereference, c, w)
           | Some cn \<Rightarrow>
               (case conn_Write cn payload w of
                  (Inl err, w2) \<Rightarrow> (Return (Inl err), c, w2)
                | (Inr _, w2) \<Rightarrow>
                    (case make_bytes w2 (22 + 2 * numPoints) of
                       Panic p \<Rightarrow> (Panic p, c, w2)
                     | Fatal f \<Rightarrow> (Fatal f, c, w2)
                     | Return buf \<Rightarrow>
                         (case conn_Read cn buf w2 of
                            (Inl err, w3) \<Rightarrow> (Return (Inl err), c, w3)
                          | (Inr (readLen, readBuff), w3) \<Rightarrow>
                              (Return (Inr (take readLen readBuff)), c, w3))))))"

definition BitRead_explicit ::
  "client3EAlive \<Rightarrow> world \<Rightarrow> string \<Rightarrow> int64 \<Rightarrow> int64 \<Rightarrow>
     (error + byte list) ret \<times> client3EAlive \<times> world" where
  "BitRead_explicit c w deviceName offset numPoints =
     (case DecodeString (BuildBitReadRequest (stn c) deviceName offset numPoints) of
        Inl err \<Rightarrow> (Return (Inl err), c, w)
      | Inr payload \<Rightarrow>
          (case conn c of
             None \<Rightarrow> (Panic NilDereference, c, w)
           | Some cn \<Rightarrow>
               (case conn_Write cn payload w of
                  (Inl err, w2) \<Rightarrow> (Return (Inl err), c, w2)
                | (Inr _, w2) \<Rightarrow>
                    (case make_bytes w2 (22 + 2 * numPoints) of
                       Panic p \<Rightarrow> (Panic p, c, w2)
                     | Fatal f \<Rightarrow> (Fatal f, c, w2)
                     | Return buf \<Rightarrow>
                         (case conn_Read cn buf w2 of
                            (Inl err, w3) \<Rightarrow> (Return (Inl err), c, w3)
                          | (Inr (readLen, readBuff), w3) \<Rightarrow>
                              (Return (Inr (take readLen readBuff)), c, w3))))))"

definition Write_explicit ::
  "client3EAlive \<Rightarrow> world \<Rightarrow> string \<Rightarrow> int64 \<Rightarrow> int64 \<Rightarrow> byte list \<Rightarrow>
     (error + byte list) ret \<times> client3EAlive \<times> world" where
  "Write_explicit c w deviceName offset numPoints writeData =
     (case DecodeString (BuildWriteRequest (stn c) deviceName offset numPoints writeData) of
        Inl err \<Rightarrow> (Return (Inl err), c, w)
      | Inr payload \<Rightarrow>
          (case conn c of
             None \<Rightarrow> (Panic NilDereference, c, w)
           | Some cn \<Rightarrow>
               (case conn_Write cn payload w of
                  (Inl err, w2) \<Rightarrow> (Return (Inl err), c, w2)
                | (Inr _, w2) \<Rightarrow>
                    (case conn_Read cn (replicate 22 0) w2 of
                       (Inl err, w3) \<Rightarrow> (Return (Inl err), c, w3)
                     | (Inr (readLen, readBuff), w3) \<Rightarrow>
                         (Return (Inr (take readLen readBuff)), c, w3)))))"

subsection \<open>Concrete inputs\<close>

text \<open>
  A station whose four requests are well-formed hexadecimal text, one whose requests do
  not decode (odd length, or a character that is no digit), a client that has not
  dialed yet, the 18 bytes of a correct answer to the health check, and a world whose
  network accepts the dial and the write and then delivers that answer, on a machine
  that can back buffers of up to 16 GiB.
\<close>

definition demo_station :: station where
  "demo_station =
     \<lparr> BuildHealthCheckRequest = ''5000'',
       BuildReadRequest = (\<lambda>d off n. ''0401''),
       BuildBitReadRequest = (\<lambda>d off n. ''0402''),
       BuildWriteRequest = (\<lambda>d off n dat. ''1401'') \<rparr>"

definition bad_station :: station where
  "bad_station =
     \<lparr> BuildHealthCheckRequest = ''500'',
       BuildReadRequest = (\<lambda>d off n. ''04g1''),
       BuildBitReadRequest = (\<lambda>d off n. ''zz''),
       BuildWriteRequest = (\<lambda>d off n dat. ''1'') \<rparr>"


definition demo_client :: client3EAlive where
  "demo_client = \<lparr> conn = None, tcpAddr = ''plc:5000'', stn = demo_station \<rparr>"

definition demo_echo :: "byte list" where
  "demo_echo = [0xD0, 0, 0, 0xFF, 0xFF, 3, 0, 9, 0, 0, 0, 5, 0, 0x41, 0x42, 0x43, 0x44, 0x45]"

definition demo_world :: world where
  "demo_world =
     \<lparr> script = [Succeeds [], Succeeds [], Succeeds demo_echo],
       socks = [], trace = [], maxAlloc = 2 ^ 48, memAvail = 2 ^ 34 \<rparr>"

section \<open>Properties\<close>

subsection \<open>Hexadecimal text\<close>

lemma udigits_table:
  assumes "n < 16"
  shows "reverseHexTable (udigits ! n) = of_nat n"
proof -
  have "n \<in> {0, 1, 2, 3, 4, 5, 6, 7, 8, 9, 10, 11, 12, 13, 14, 15}"
    using assms by simp arith
  then show ?thesis
    by (auto simp: reverseHexTable_def udigits_def)
qed

lemma nibble_le: "n < 16 \<Longrightarrow> \<not> (of_nat n :: byte) > 0x0f"
  by (simp add: word_less_nat_alt unat_of_nat not_less)

lemma byte_nibbles: "(of_nat (unat b div 16) * 16 + of_nat (unat b mod 16) :: byte) = b"
proof -
  have "(of_nat (unat b div 16) * 16 + of_nat (unat b mod 16) :: byte)
          = of_nat (unat b div 16 * 16 + unat b mod 16)"
    by (simp only: of_nat_add of_nat_mult of_nat_numeral)
  also have "\<dots> = of_nat (unat b)"
    by (simp only: div_mult_mod_eq)
  finally show ?thesis by simp
qed

text \<open>Decoding the text that \<^verbatim>\<open>%X\<close> prints gives the bytes back.\<close>

lemma Decode_SprintfX: "Decode (SprintfX bs) = Inr bs"
proof (induction bs)
  case Nil
  show ?case by simp
next
  case (Cons b bs)
  have hi: "unat b div 16 < 16"
    using unsigned_less [of b, where ?'a = nat] by (simp add: less_mult_imp_div_less)
  have lo: "unat b mod 16 < 16"
    by simp
  show ?case
    using Cons hi lo
    by (simp add: udigits_table nibble_le byte_nibbles Let_def del: of_nat_mult of_nat_add)
qed

lemma SprintfX_inject:
  assumes "SprintfX a = SprintfX b"
  shows "a = b"
proof -
  have "Decode (SprintfX a) = Decode (SprintfX b)"
    by (rule arg_cong [OF assms])
  then show ?thesis
    by (simp only: Decode_SprintfX sum.inject)
qed

lemma DecodeString_Inl: "DecodeString s = Inl e \<Longrightarrow> e \<noteq> ErrorsNew m"
  unfolding DecodeString_def
  by (induction s arbitrary: e rule: Decode.induct) (auto simp: Let_def split: if_splits sum.splits)

subsection \<open>What the calls on the network do to the world\<close>

lemma conn_Write_Inr:
  assumes "conn_Write s p w = (Inr n, w')"
  shows "is_open w s" "socks w' = socks w" "maxAlloc w' = maxAlloc w"
        "trace w' = trace w @ [EvWrite s p]" "n = length p"
  using assms
  by (auto simp: conn_Write_def next_outcome_def logged_def
      split: if_splits list.splits outcome.splits)

lemma conn_Write_Inl:
  assumes "conn_Write s p w = (Inl e, w')"
  shows "socks w' = socks w" "maxAlloc w' = maxAlloc w"
        "trace w' = trace w @ [EvWrite s p]" "e \<noteq> ErrorsNew m"
  using assms
  by (auto simp: conn_Write_def next_outcome_def logged_def
      split: if_splits list.splits outcome.splits)

lemma conn_Read_Inr:
  assumes "conn_Read s buf w = (Inr (n, buf'), w')"
  shows "n \<le> length buf" "length buf' = length buf"
        "trace w' = trace w @ [EvRead s (length buf)]"
        "socks w' = socks w" "maxAlloc w' = maxAlloc w" "is_open w s"
  using assms
  by (auto simp: conn_Read_def next_outcome_def logged_def Let_def
      split: if_splits list.splits outcome.splits)

lemma conn_Read_delivered:
  assumes "conn_Read s buf w = (Inr (n, buf'), w')"
  shows "\<exists>bs rest. script w = Succeeds bs # rest \<and> script w' = rest \<and>
           take n buf' = take (length buf) bs"
  using assms
  by (auto simp: conn_Read_def next_outcome_def logged_def Let_def min_def
      split: if_splits list.splits outcome.splits)

lemma conn_Read_Inl:
  assumes "conn_Read s buf w = (Inl e, w')"
  shows "socks w' = socks w" "maxAlloc w' = maxAlloc w"
        "trace w' = trace w @ [EvRead s (length buf)]" "e \<noteq> ErrorsNew m"
  using assms
  by (auto simp: conn_Read_def next_outcome_def logged_def Let_def
      split: if_splits list.splits outcome.splits)

lemma conn_Close_world:
  "\<not> is_open (snd (conn_Close s w)) s"
  "trace (snd (conn_Close s w)) = trace w @ [EvClose s]"
  "maxAlloc (snd (conn_Close s w)) = maxAlloc w"
  "script (snd (conn_Close s w)) = script w"
  "length (socks (snd (conn_Close s w))) = length (socks w)"
  "t \<noteq> s \<Longrightarrow> is_open (snd (conn_Close s w)) t = is_open w t"
  by (auto simp: conn_Close_def logged_def is_open_def)

lemma DialTCP_Inr:
  assumes "DialTCP a w = (Inr s, w')"
  shows "s = length (socks w)" "is_open w' s" "socks w' = socks w @ [True]"
        "trace w' = trace w @ [EvDial a]" "maxAlloc w' = maxAlloc w"
  using assms
  by (auto simp: DialTCP_def next_outcome_def logged_def is_open_def
      split: list.splits outcome.splits)

lemma DialTCP_Inl:
  assumes "DialTCP a w = (Inl e, w')"
  shows "socks w' = socks w" "trace w' = trace w @ [EvDial a]" "maxAlloc w' = maxAlloc w"
        "e \<noteq> ErrorsNew m"
  using assms
  by (auto simp: DialTCP_def next_outcome_def logged_def split: list.splits outcome.splits)

lemma dialAndStore_Inr:
  assumes "dialAndStore c w = (Inr s, c', w')"
  shows "c' = c\<lparr>conn := Some s\<rparr>" "is_open w' s" "maxAlloc w' = maxAlloc w"
        "DialTCP (tcpAddr c) w = (Inr s, w')"
  using assms DialTCP_Inr [of "tcpAddr c" w]
  by (auto simp: dialAndStore_def split: prod.splits sum.splits)

lemma dialAndStore_Inl:
  assumes "dialAndStore c w = (Inl e, c', w')"
  shows "c' = c" "maxAlloc w' = maxAlloc w" "e \<noteq> ErrorsNew m"
        "DialTCP (tcpAddr c) w = (Inl e, w')"
  using assms DialTCP_Inl [of "tcpAddr c" w]
  by (auto simp: dialAndStore_def split: prod.splits sum.splits)

text \<open>A connection handed out by \<^verbatim>\<open>getConnection\<close> is the stored one, and it is open.\<close>

lemma getConnection_Inr:
  assumes "getConnection c w = (Inr cn, c1, w1)"
  shows "conn c1 = Some cn" "is_open w1 cn" "maxAlloc w1 = maxAlloc w"
        "tcpAddr c1 = tcpAddr c" "stn c1 = stn c"
proof -
  show "conn c1 = Some cn" "tcpAddr c1 = tcpAddr c" "stn c1 = stn c"
    using assms
    by (auto simp: getConnection_def split: option.splits prod.splits sum.splits
        dest: dialAndStore_Inr(1))
  show "is_open w1 cn"
    using assms
    by (auto simp: getConnection_def conn_Write_Inr(1,2) is_open_def
        split: option.splits prod.splits sum.splits
        dest: dialAndStore_Inr(2) conn_Write_Inr(1,2))
  show "maxAlloc w1 = maxAlloc w"
    using assms
    by (auto simp: getConnection_def conn_Close_world
        split: option.splits prod.splits sum.splits
        dest!: dialAndStore_Inr(3) conn_Write_Inr(3) conn_Write_Inl(2))
qed

lemma getConnection_Inl:
  assumes "getConnection c w = (Inl e, c1, w1)"
  shows "conn c1 = None" "e \<noteq> ErrorsNew m" "tcpAddr c1 = tcpAddr c" "stn c1 = stn c"
  using assms
  by (auto simp: getConnection_def split: option.splits prod.splits sum.splits
      dest: dialAndStore_Inl)

lemma DialTCP_trace: "trace (snd (DialTCP a w)) = trace w @ [EvDial a]"
  by (auto simp: DialTCP_def next_outcome_def logged_def split: list.splits outcome.splits)

lemma DialTCP_keeps_closed:
  "s < length (socks w) \<Longrightarrow> is_open (snd (DialTCP a w)) s = is_open w s"
  by (auto simp: DialTCP_def next_outcome_def logged_def is_open_def nth_append
      split: list.splits outcome.splits)

lemma dialAndStore_eq:
  "dialAndStore c w = (r, c', w') \<Longrightarrow>
     (r, w') = DialTCP (tcpAddr c) w \<and>
     c' = c\<lparr>conn := (case r of Inl _ \<Rightarrow> conn c | Inr s' \<Rightarrow> Some s')\<rparr>"
  by (auto simp: dialAndStore_def split: prod.splits sum.splits)

lemma conn_Write_maxAlloc: "conn_Write s p w = (r, w') \<Longrightarrow> maxAlloc w' = maxAlloc w"
  by (cases r) (auto dest: conn_Write_Inl(2) conn_Write_Inr(3))

lemma closeAndReturn_Some:
  "conn c = Some s \<Longrightarrow> closeAndReturn r c w = (Return r, c\<lparr>conn := None\<rparr>, snd (conn_Close s w))"
  by (simp add: closeAndReturn_def)

lemma closeAndReturn_result:
  "closeAndReturn r c w = (Return x, c', w') \<Longrightarrow> x = r \<and> conn c' = None"
  by (auto simp: closeAndReturn_def split: option.splits)

text \<open>The definitions unfolded to run the program on a concrete input.\<close>

lemmas run_defs =
  DecodeString_def reverseHexTable_def getConnection_def dialAndStore_def DialTCP_def
  conn_Write_def conn_Read_def conn_Close_def next_outcome_def logged_def is_open_def
  closeAndReturn_def make_bytes_def demo_client_def demo_station_def demo_world_def Let_def

subsection \<open>A request that does not decode\<close>

text \<open>
  C6. In both variants and for each of \<^verbatim>\<open>HealthCheck\<close>, \<^verbatim>\<open>Read\<close>, \<^verbatim>\<open>BitRead\<close> and
  \<^verbatim>\<open>Write\<close>: when \<^verbatim>\<open>hex.DecodeString\<close> fails on the text the station built, the
  operation returns that error, and the client and the world are exactly as before the
  call: nothing was dialed, probed, written, read or closed (the trace and the script
  are untouched) and the stored connection is unchanged.
\<close>

theorem decode_failure_before_io:
  "(DecodeString (BuildHealthCheckRequest (stn c)) = Inl e \<longrightarrow>
      HealthCheck c w = (Return (Some e), c, w) \<and>
      HealthCheck_explicit c w = (Return (Some e), c, w)) \<and>
   (DecodeString (BuildReadRequest (stn c) d off np) = Inl e \<longrightarrow>
      Read c w d off np = (Return (Inl e), c, w) \<and>
      Read_explicit c w d off np = (Return (Inl e), c, w)) \<and>
   (DecodeString (BuildBitReadRequest (stn c) d off np) = Inl e \<longrightarrow>
      BitRead c w d off np = (Return (Inl e), c, w) \<and>
      BitRead_explicit c w d off np = (Return (Inl e), c, w)) \<and>
   (DecodeString (BuildWriteRequest (stn c) d off np dat) = Inl e \<longrightarrow>
      Write c w d off np dat = (Return (Inl e), c, w) \<and>
      Write_explicit c w d off np dat = (Return (Inl e), c, w))"
  by (simp add: HealthCheck_def HealthCheck_explicit_def Read_def Read_explicit_def
      BitRead_def BitRead_explicit_def Write_def Write_explicit_def)

theorem decode_failure_before_io_witness:
  "HealthCheck (demo_client\<lparr>conn := Some 0, stn := bad_station\<rparr>) (demo_world\<lparr>socks := [True]\<rparr>)
     = (Return (Some ErrLength),
        demo_client\<lparr>conn := Some 0, stn := bad_station\<rparr>, demo_world\<lparr>socks := [True]\<rparr>) \<and>
   Read_explicit (demo_client\<lparr>conn := Some 0, stn := bad_station\<rparr>)
       (demo_world\<lparr>socks := [True]\<rparr>) ''D100'' 0 10
     = (Return (Inl (InvalidByteError CHR ''g'')),
        demo_client\<lparr>conn := Some 0, stn := bad_station\<rparr>, demo_world\<lparr>socks := [True]\<rparr>) \<and>
   BitRead (demo_client\<lparr>conn := Some 0, stn := bad_station\<rparr>)
       (demo_world\<lparr>socks := [True]\<rparr>) ''M0'' 0 8
     = (Return (Inl (InvalidByteError CHR ''z'')),
        demo_client\<lparr>conn := Some 0, stn := bad_station\<rparr>, demo_world\<lparr>socks := [True]\<rparr>) \<and>
   Write (demo_client\<lparr>conn := Some 0, stn := bad_station\<rparr>)
       (demo_world\<lparr>socks := [True]\<rparr>) ''D100'' 0 1 [0, 1]
     = (Return (Inl ErrLength),
        demo_client\<lparr>conn := Some 0, stn := bad_station\<rparr>, demo_world\<lparr>socks := [True]\<rparr>)"
  using
    decode_failure_before_io [of "demo_client\<lparr>conn := Some 0, stn := bad_station\<rparr>"
      ErrLength "demo_world\<lparr>socks := [True]\<rparr>" "''D100''" 0 1 "[0, 1]"]
    decode_failure_before_io [of "demo_client\<lparr>conn := Some 0, stn := bad_station\<rparr>"
      "InvalidByteError CHR ''g''" "demo_world\<lparr>socks := [True]\<rparr>" "''D100''" 0 10]
    decode_failure_before_io [of "demo_client\<lparr>conn := Some 0, stn := bad_station\<rparr>"
      "InvalidByteError CHR ''z''" "demo_world\<lparr>socks := [True]\<rparr>" "''M0''" 0 8]
  by (simp add: bad_station_def DecodeString_def reverseHexTable_def)

subsection \<open>The verdict of the health check\<close>

lemma HealthCheck_read_ok:
  assumes "DecodeString (BuildHealthCheckRequest (stn c)) = Inr payload"
    and "getConnection c w = (Inr cn, c1, w1)"
    and "conn_Write cn payload w1 = (Inr n, w2)"
    and "conn_Read cn (replicate 30 0) w2 = (Inr (readLen, readBuff), w3)"
  shows "HealthCheck c w = (Return (checkResponse readLen readBuff), c1, w3)"
  using assms by (simp add: HealthCheck_def)

lemma HealthCheck_explicit_read_ok:
  assumes "DecodeString (BuildHealthCheckRequest (stn c)) = Inr payload"
    and "conn c = Some cn"
    and "conn_Write cn payload w = (Inr n, w2)"
    and "conn_Read cn (replicate 30 0) w2 = (Inr (readLen, readBuff), w3)"
  shows "HealthCheck_explicit c w = (Return (checkResponse readLen readBuff), c, w3)"
  using assms by (simp add: HealthCheck_explicit_def)

lemma SprintfX_header: "SprintfX [0x05, 0x00] = ''0500''"
  by (simp add: udigits_def)

lemma SprintfX_body: "SprintfX [0x41, 0x42, 0x43, 0x44, 0x45] = ''4142434445''"
  by (simp add: udigits_def)

text \<open>
  The two comparisons of hexadecimal text in \<^verbatim>\<open>HealthCheck\<close> are comparisons of
  the bytes, since \<^verbatim>\<open>%X\<close> is injective.
\<close>

lemma header_test: "(''0500'' \<noteq> SprintfX x) = (x \<noteq> [0x05, 0x00])"
  using SprintfX_inject [of x "[0x05, 0x00]"] SprintfX_header by auto

lemma body_test: "(''4142434445'' \<noteq> SprintfX x) = (x \<noteq> [0x41, 0x42, 0x43, 0x44, 0x45])"
  using SprintfX_inject [of x "[0x41, 0x42, 0x43, 0x44, 0x45]"] SprintfX_body by auto

lemma checkResponse_chain:
  "checkResponse readLen readBuff =
     (if readLen \<noteq> 18 then
        Some (ErrorsNew (''plc connect test is fail: return length is [''
                           @ SprintfX (take readLen readBuff) @ '']''))
      else if subslice (take readLen readBuff) 11 13 \<noteq> [0x05, 0x00] then
        Some (ErrorsNew (''plc connect test is fail: return header is [''
                           @ SprintfX (subslice (take readLen readBuff) 11 13) @ '']''))
      else if subslice (take readLen readBuff) 13 18 \<noteq> [0x41, 0x42, 0x43, 0x44, 0x45] then
        Some (ErrorsNew (''plc connect test is fail: return body is [''
                           @ SprintfX (subslice (take readLen readBuff) 13 18) @ '']''))
      else None)"
  unfolding checkResponse_def Let_def header_test body_test by (rule refl)

text \<open>
  C1. In both variants, once the request has been written and the read has returned
  \<open>readLen\<close> bytes \<open>resp\<close>, \<^verbatim>\<open>HealthCheck\<close> returns nil if and only if
  \<open>readLen = 18\<close>, \<open>resp[11:13]\<close> is \<open>05 00\<close> and \<open>resp[13:18]\<close> is
  \<open>41 42 43 44 45\<close>; otherwise it returns the error of the first check that fails, in
  the order length, header, body.
\<close>

theorem HealthCheck_verdict:
  assumes dec: "DecodeString (BuildHealthCheckRequest (stn c)) = Inr payload"
    and acq: "(getConnection c w = (Inr cn, c1, w1) \<and> r = fst (HealthCheck c w)) \<or>
              (conn c = Some cn \<and> w1 = w \<and> r = fst (HealthCheck_explicit c w))"
    and wr: "conn_Write cn payload w1 = (Inr n, w2)"
    and rd: "conn_Read cn (replicate 30 0) w2 = (Inr (readLen, readBuff), w3)"
    and resp: "resp = take readLen readBuff"
  shows "length resp = readLen \<and>
         ((r = Return None) =
            (readLen = 18 \<and> subslice resp 11 13 = [0x05, 0x00] \<and>
             subslice resp 13 18 = [0x41, 0x42, 0x43, 0x44, 0x45])) \<and>
         r = Return
            (if readLen \<noteq> 18 then
               Some (ErrorsNew (''plc connect test is fail: return length is [''
                                  @ SprintfX resp @ '']''))
             else if subslice resp 11 13 \<noteq> [0x05, 0x00] then
               Some (ErrorsNew (''plc connect test is fail: return header is [''
                                  @ SprintfX (subslice resp 11 13) @ '']''))
             else if subslice resp 13 18 \<noteq> [0x41, 0x42, 0x43, 0x44, 0x45] then
               Some (ErrorsNew (''plc connect test is fail: return body is [''
                                  @ SprintfX (subslice resp 13 18) @ '']''))
             else None)"
proof -
  have r: "r = Return (checkResponse readLen readBuff)"
    using acq
  proof
    assume "getConnection c w = (Inr cn, c1, w1) \<and> r = fst (HealthCheck c w)"
    then show ?thesis
      using HealthCheck_read_ok [OF dec _ wr rd] by simp
  next
    assume a: "conn c = Some cn \<and> w1 = w \<and> r = fst (HealthCheck_explicit c w)"
    then have "conn_Write cn payload w = (Inr n, w2)"
      using wr by simp
    from HealthCheck_explicit_read_ok [OF dec _ this rd] a show ?thesis
      by simp
  qed
  have len: "length resp = readLen"
    using conn_Read_Inr(1,2) [OF rd] resp by simp
  show ?thesis
    unfolding r resp checkResponse_chain using len resp by simp
qed

theorem HealthCheck_verdict_witness:
  "fst (HealthCheck demo_client demo_world) = Return None \<and>
   fst (HealthCheck_explicit (demo_client\<lparr>conn := Some 0\<rparr>)
          (demo_world\<lparr>script := [Succeeds [], Succeeds (demo_echo[11 := 4])], socks := [True]\<rparr>))
     = Return (Some (ErrorsNew ''plc connect test is fail: return header is [0400]''))"
proof -
  have dec: "DecodeString (BuildHealthCheckRequest (stn demo_client)) = Inr [0x50, 0]"
    by (simp add: run_defs)
  have acq: "getConnection demo_client demo_world
      = (Inr 0, demo_client\<lparr>conn := Some 0\<rparr>,
         demo_world\<lparr>script := [Succeeds [], Succeeds demo_echo], socks := [True],
            trace := [EvDial ''plc:5000'']\<rparr>)"
    by (simp add: run_defs)
  have wr: "conn_Write 0 [0x50, 0]
       (demo_world\<lparr>script := [Succeeds [], Succeeds demo_echo], socks := [True],
            trace := [EvDial ''plc:5000'']\<rparr>)
      = (Inr 2, demo_world\<lparr>script := [Succeeds demo_echo], socks := [True],
            trace := [EvDial ''plc:5000'', EvWrite 0 [0x50, 0]]\<rparr>)"
    by (simp add: run_defs)
  have rd: "conn_Read 0 (replicate 30 0)
       (demo_world\<lparr>script := [Succeeds demo_echo], socks := [True],
            trace := [EvDial ''plc:5000'', EvWrite 0 [0x50, 0]]\<rparr>)
      = (Inr (18, demo_echo @ replicate 12 0),
         demo_world\<lparr>script := [], socks := [True],
            trace := [EvDial ''plc:5000'', EvWrite 0 [0x50, 0], EvRead 0 30]\<rparr>)"
    by (simp add: run_defs demo_echo_def)
  have one: "fst (HealthCheck demo_client demo_world) = Return None"
    using HealthCheck_verdict [OF dec disjI1 [OF conjI [OF acq refl]] wr rd refl]
    by (simp add: demo_echo_def subslice_def)
  have dec': "DecodeString (BuildHealthCheckRequest (stn (demo_client\<lparr>conn := Some 0\<rparr>))) = Inr [0x50, 0]"
    by (simp add: run_defs)
  have wr': "conn_Write 0 [0x50, 0]
       (demo_world\<lparr>script := [Succeeds [], Succeeds (demo_echo[11 := 4])], socks := [True]\<rparr>)
      = (Inr 2, demo_world\<lparr>script := [Succeeds (demo_echo[11 := 4])], socks := [True],
            trace := [EvWrite 0 [0x50, 0]]\<rparr>)"
    by (simp add: run_defs)
  have rd': "conn_Read 0 (replicate 30 0)
       (demo_world\<lparr>script := [Succeeds (demo_echo[11 := 4])], socks := [True],
            trace := [EvWrite 0 [0x50, 0]]\<rparr>)
      = (Inr (18, demo_echo[11 := 4] @ replicate 12 0),
         demo_world\<lparr>script := [], socks := [True],
            trace := [EvWrite 0 [0x50, 0], EvRead 0 30]\<rparr>)"
    by (simp add: run_defs demo_echo_def)
  have two: "fst (HealthCheck_explicit (demo_client\<lparr>conn := Some 0\<rparr>)
          (demo_world\<lparr>script := [Succeeds [], Succeeds (demo_echo[11 := 4])], socks := [True]\<rparr>))
     = Return (Some (ErrorsNew ''plc connect test is fail: return header is [0400]''))"
    using HealthCheck_verdict [OF dec' disjI2 [OF conjI [OF _ conjI [OF refl refl]]] wr' rd' refl]
    by (simp add: demo_echo_def subslice_def udigits_def demo_client_def)
  from one two show ?thesis by (rule conjI)
qed

subsection \<open>What a validation error says, and what it leaves alone\<close>

lemma HealthCheck_ErrorsNew:
  assumes "HealthCheck c w = (Return (Some (ErrorsNew msg)), c', w')"
  shows "\<exists>payload cn w1 n w2 readLen readBuff.
           DecodeString (BuildHealthCheckRequest (stn c)) = Inr payload \<and>
           getConnection c w = (Inr cn, c', w1) \<and>
           conn_Write cn payload w1 = (Inr n, w2) \<and>
           conn_Read cn (replicate 30 0) w2 = (Inr (readLen, readBuff), w') \<and>
           checkResponse readLen readBuff = Some (ErrorsNew msg)"
  using assms
  by (auto simp: HealthCheck_def split: sum.splits prod.splits
      dest: DecodeString_Inl getConnection_Inl(2) conn_Write_Inl(4) conn_Read_Inl(4)
      dest!: closeAndReturn_result)





text \<open>
  C10. In the persistent variant, when \<^verbatim>\<open>HealthCheck\<close> fails a validation check, the
  client is exactly as \<^verbatim>\<open>getConnection\<close> left it: the connection acquired is still
  stored and still open, nothing was closed after the write and the read, and the next
  \<^verbatim>\<open>getConnection\<close> whose probe succeeds hands out the same connection.
\<close>

theorem validation_failure_keeps_connection:
  assumes "HealthCheck c w = (Return (Some (ErrorsNew msg)), c', w')"
  shows "\<exists>cn w1 payload.
           getConnection c w = (Inr cn, c', w1) \<and>
           c' = c\<lparr>conn := Some cn\<rparr> \<and>
           is_open w' cn \<and>
           socks w' = socks w1 \<and>
           trace w' = trace w1 @ [EvWrite cn payload, EvRead cn 30] \<and>
           (\<forall>n w''. conn_Write cn [] w' = (Inr n, w'') \<longrightarrow>
                    getConnection c' w' = (Inr cn, c', w''))"
proof -
  from HealthCheck_ErrorsNew [OF assms] obtain payload cn w1 n w2 readLen readBuff where
    acq: "getConnection c w = (Inr cn, c', w1)" and
    wr: "conn_Write cn payload w1 = (Inr n, w2)" and
    rd: "conn_Read cn (replicate 30 0) w2 = (Inr (readLen, readBuff), w')"
    by blast
  have stored: "conn c' = Some cn"
    by (rule getConnection_Inr(1) [OF acq])
  have c': "c' = c\<lparr>conn := Some cn\<rparr>"
    using acq
    by (auto simp: getConnection_def dialAndStore_def
        split: option.splits prod.splits sum.splits)
  have socks: "socks w' = socks w1"
    using conn_Write_Inr(2) [OF wr] conn_Read_Inr(4) [OF rd] by simp
  have "is_open w1 cn"
    by (rule conn_Write_Inr(1) [OF wr])
  then have op: "is_open w' cn"
    using socks by (simp add: is_open_def)
  have tr: "trace w' = trace w1 @ [EvWrite cn payload, EvRead cn 30]"
    using conn_Write_Inr(4) [OF wr] conn_Read_Inr(3) [OF rd] by simp
  have reuse: "\<forall>n w''. conn_Write cn [] w' = (Inr n, w'') \<longrightarrow>
                    getConnection c' w' = (Inr cn, c', w'')"
    using stored by (simp add: getConnection_def)
  from acq c' op socks tr reuse show ?thesis
    by blast
qed

theorem validation_failure_keeps_connection_witness:
  "HealthCheck demo_client (demo_world\<lparr>script := [Succeeds [], Succeeds [], Succeeds (demo_echo[11 := 4])]\<rparr>)
     = (Return (Some (ErrorsNew ''plc connect test is fail: return header is [0400]'')), demo_client\<lparr>conn := Some 0\<rparr>,
        demo_world\<lparr>script := [], socks := [True], trace := [EvDial ''plc:5000'', EvWrite 0 [0x50, 0], EvRead 0 30]\<rparr>) \<and>
   (\<exists>cn w1 payload.
           getConnection demo_client (demo_world\<lparr>script := [Succeeds [], Succeeds [], Succeeds (demo_echo[11 := 4])]\<rparr>) = (Inr cn, demo_client\<lparr>conn := Some 0\<rparr>, w1) \<and>
           demo_client\<lparr>conn := Some 0\<rparr> = demo_client\<lparr>conn := Some cn\<rparr> \<and>
           is_open (demo_world\<lparr>script := [], socks := [True], trace := [EvDial ''plc:5000'', EvWrite 0 [0x50, 0], EvRead 0 30]\<rparr>) cn \<and>
           socks (demo_world\<lparr>script := [], socks := [True], trace := [EvDial ''plc:5000'', EvWrite 0 [0x50, 0], EvRead 0 30]\<rparr>) = socks w1 \<and>
           trace (demo_world\<lparr>script := [], socks := [True], trace := [EvDial ''plc:5000'', EvWrite 0 [0x50, 0], EvRead 0 30]\<rparr>) = trace w1 @ [EvWrite cn payload, EvRead cn 30] \<and>
           (\<forall>n w''. conn_Write cn [] (demo_world\<lparr>script := [], socks := [True], trace := [EvDial ''plc:5000'', EvWrite 0 [0x50, 0], EvRead 0 30]\<rparr>) = (Inr n, w'') \<longrightarrow>
                    getConnection (demo_client\<lparr>conn := Some 0\<rparr>) (demo_world\<lparr>script := [], socks := [True], trace := [EvDial ''plc:5000'', EvWrite 0 [0x50, 0], EvRead 0 30]\<rparr>) = (Inr cn, demo_client\<lparr>conn := Some 0\<rparr>, w'')))"
proof -
  have run: "HealthCheck demo_client (demo_world\<lparr>script := [Succeeds [], Succeeds [], Succeeds (demo_echo[11 := 4])]\<rparr>)
     = (Return (Some (ErrorsNew ''plc connect test is fail: return header is [0400]'')), demo_client\<lparr>conn := Some 0\<rparr>,
        demo_world\<lparr>script := [], socks := [True], trace := [EvDial ''plc:5000'', EvWrite 0 [0x50, 0], EvRead 0 30]\<rparr>)"
    by (simp add: HealthCheck_def checkResponse_def subslice_def udigits_def demo_echo_def run_defs)
  from run validation_failure_keeps_connection [OF run] show ?thesis
    by (rule conjI)
qed

subsection \<open>Acquiring the connection\<close>

text \<open>
  C2. \<^verbatim>\<open>getConnection\<close> in the persistent variant. With a stored connection whose
  probe (a write of no bytes) succeeds, it returns that connection, leaves the client
  unchanged and makes no other call. When the probe fails, it closes the stored
  connection and then dials the configured address. With no connection stored it
  dials at once. After a failed dial the result is the error and no connection is
  stored; after a successful dial the new connection is stored, returned and open.
\<close>

theorem getConnection_behaviour:
  assumes "getConnection c w = (r, c', w')"
  shows "(case conn c of
            None \<Rightarrow>
              (r, w') = DialTCP (tcpAddr c) w \<and>
              trace w' = trace w @ [EvDial (tcpAddr c)]
          | Some s \<Rightarrow>
              (case conn_Write s [] w of
                 (Inr _, w1) \<Rightarrow>
                   r = Inr s \<and> c' = c \<and> w' = w1 \<and> trace w' = trace w @ [EvWrite s []]
               | (Inl _, w1) \<Rightarrow>
                   (r, w') = DialTCP (tcpAddr c) (snd (conn_Close s w1)) \<and>
                   trace w' = trace w @ [EvWrite s [], EvClose s, EvDial (tcpAddr c)] \<and>
                   (s < length (socks w) \<longrightarrow> \<not> is_open w' s))) \<and>
         c' = c\<lparr>conn := (case r of Inl _ \<Rightarrow> None | Inr s' \<Rightarrow> Some s')\<rparr> \<and>
         (case r of Inl _ \<Rightarrow> True | Inr s' \<Rightarrow> is_open w' s')"
proof (cases "conn c")
  case None
  then have d: "dialAndStore c w = (r, c', w')"
    using assms by (simp add: getConnection_def)
  from dialAndStore_eq [OF d] have
    eq: "(r, w') = DialTCP (tcpAddr c) w" and
    c': "c' = c\<lparr>conn := (case r of Inl _ \<Rightarrow> conn c | Inr s' \<Rightarrow> Some s')\<rparr>"
    by simp_all
  have tr: "trace w' = trace w @ [EvDial (tcpAddr c)]"
    using DialTCP_trace [of "tcpAddr c" w] eq [symmetric] by simp
  have live: "case r of Inl _ \<Rightarrow> True | Inr s' \<Rightarrow> is_open w' s'"
    using d by (auto split: sum.splits dest: dialAndStore_Inr(2))
  have "c' = c\<lparr>conn := (case r of Inl _ \<Rightarrow> None | Inr s' \<Rightarrow> Some s')\<rparr>"
    using c' None by (cases r) simp_all
  with None eq tr live show ?thesis
    by simp
next
  case (Some s)
  obtain pr w1 where probe: "conn_Write s [] w = (pr, w1)"
    by (cases "conn_Write s [] w")
  show ?thesis
  proof (cases pr)
    case (Inr n)
    then have res: "r = Inr s" "c' = c" "w' = w1"
      using assms Some probe by (simp_all add: getConnection_def)
    have tr: "trace w1 = trace w @ [EvWrite s []]"
      using conn_Write_Inr(4) probe Inr by blast
    have "is_open w1 s"
      using conn_Write_Inr(1,2) [of s "[]" w n w1] probe Inr by (simp add: is_open_def)
    moreover have "c = c\<lparr>conn := Some s\<rparr>"
      using Some by simp
    ultimately show ?thesis
      using Some probe Inr res tr by simp
  next
    case (Inl e)
    let ?wc = "snd (conn_Close s w1)"
    have d: "dialAndStore (c\<lparr>conn := None\<rparr>) ?wc = (r, c', w')"
      using assms Some probe Inl by (simp add: getConnection_def)
    from dialAndStore_eq [OF d] have
      eq: "(r, w') = DialTCP (tcpAddr c) ?wc" and
      c': "c' = c\<lparr>conn := (case r of Inl _ \<Rightarrow> None | Inr s' \<Rightarrow> Some s')\<rparr>"
      by (simp_all split: sum.splits)
    have w': "w' = snd (DialTCP (tcpAddr c) ?wc)"
      using eq [symmetric] by simp
    have tr1: "trace w1 = trace w @ [EvWrite s []]" and so1: "socks w1 = socks w"
      using conn_Write_Inl(1,3) probe Inl by blast+
    have tr: "trace w' = trace w @ [EvWrite s [], EvClose s, EvDial (tcpAddr c)]"
      unfolding w' by (simp add: DialTCP_trace conn_Close_world tr1)
    have closed: "s < length (socks w) \<longrightarrow> \<not> is_open w' s"
      unfolding w' using so1 by (simp add: DialTCP_keeps_closed conn_Close_world)
    have live: "case r of Inl _ \<Rightarrow> True | Inr s' \<Rightarrow> is_open w' s'"
      using d by (auto split: sum.splits dest: dialAndStore_Inr(2))
    from Some probe Inl eq tr closed c' live show ?thesis
      by simp
  qed
qed

theorem getConnection_behaviour_witness:
  "getConnection (demo_client\<lparr>conn := Some 0\<rparr>) (demo_world\<lparr>script := [Fails 32, Succeeds []], socks := [True]\<rparr>)
     = (Inr 1, demo_client\<lparr>conn := Some 1\<rparr>,
        demo_world\<lparr>script := [], socks := [False, True], trace := [EvWrite 0 [], EvClose 0, EvDial ''plc:5000'']\<rparr>) \<and>
   is_open (demo_world\<lparr>script := [], socks := [False, True], trace := [EvWrite 0 [], EvClose 0, EvDial ''plc:5000'']\<rparr>) 1 \<and>
   \<not> is_open (demo_world\<lparr>script := [], socks := [False, True], trace := [EvWrite 0 [], EvClose 0, EvDial ''plc:5000'']\<rparr>) 0"
proof -
  have run: "getConnection (demo_client\<lparr>conn := Some 0\<rparr>) (demo_world\<lparr>script := [Fails 32, Succeeds []], socks := [True]\<rparr>)
     = (Inr 1, demo_client\<lparr>conn := Some 1\<rparr>,
        demo_world\<lparr>script := [], socks := [False, True], trace := [EvWrite 0 [], EvClose 0, EvDial ''plc:5000'']\<rparr>)"
    by (simp add: run_defs)
  from run getConnection_behaviour [OF run] show ?thesis
    by (simp add: run_defs)
qed

subsection \<open>A failed write or read in the persistent variant\<close>

text \<open>
  C3. In the persistent variant, let \<^verbatim>\<open>getConnection\<close> have handed out \<open>cn\<close>. When the
  write of the request fails, or the write succeeds and the read fails, with error
  \<open>e\<close> in world \<open>wx\<close>, each of \<^verbatim>\<open>HealthCheck\<close>, \<^verbatim>\<open>Read\<close>, \<^verbatim>\<open>BitRead\<close> and \<^verbatim>\<open>Write\<close>
  returns \<open>e\<close> itself, with no connection stored and with \<open>cn\<close> closed. The only call
  after the failure is that \<^verbatim>\<open>Close\<close>: the request is not sent again. The next
  \<^verbatim>\<open>getConnection\<close> dials.
\<close>

theorem io_failure_tears_down:
  assumes acq: "getConnection c w = (Inr cn, c1, w1)"
    and c': "c' = c1\<lparr>conn := None\<rparr>"
    and w': "w' = snd (conn_Close cn wx)"
  shows "conn c' = None \<and> \<not> is_open w' cn \<and> trace w' = trace wx @ [EvClose cn] \<and>
         trace (snd (snd (getConnection c' w'))) = trace w' @ [EvDial (tcpAddr c)] \<and>
         (conn_Write cn payload w1 = (Inl e, wx) \<longrightarrow>
            trace wx = trace w1 @ [EvWrite cn payload] \<and>
            (DecodeString (BuildHealthCheckRequest (stn c)) = Inr payload \<longrightarrow>
               HealthCheck c w = (Return (Some e), c', w')) \<and>
            (DecodeString (BuildReadRequest (stn c) d off np) = Inr payload \<longrightarrow>
               Read c w d off np = (Return (Inl e), c', w')) \<and>
            (DecodeString (BuildBitReadRequest (stn c) d off np) = Inr payload \<longrightarrow>
               BitRead c w d off np = (Return (Inl e), c', w')) \<and>
            (DecodeString (BuildWriteRequest (stn c) d off np dat) = Inr payload \<longrightarrow>
               Write c w d off np dat = (Return (Inl e), c', w'))) \<and>
         (conn_Write cn payload w1 = (Inr n, w2) \<and> conn_Read cn buf w2 = (Inl e, wx) \<longrightarrow>
            trace wx = trace w1 @ [EvWrite cn payload, EvRead cn (length buf)] \<and>
            (DecodeString (BuildHealthCheckRequest (stn c)) = Inr payload \<and>
             buf = replicate 30 0 \<longrightarrow>
               HealthCheck c w = (Return (Some e), c', w')) \<and>
            (DecodeString (BuildReadRequest (stn c) d off np) = Inr payload \<and>
             make_bytes w2 (22 + 2 * np) = Return buf \<longrightarrow>
               Read c w d off np = (Return (Inl e), c', w')) \<and>
            (DecodeString (BuildBitReadRequest (stn c) d off np) = Inr payload \<and>
             make_bytes w2 (22 + 2 * np) = Return buf \<longrightarrow>
               BitRead c w d off np = (Return (Inl e), c', w')) \<and>
            (DecodeString (BuildWriteRequest (stn c) d off np dat) = Inr payload \<and>
             buf = replicate 22 0 \<longrightarrow>
               Write c w d off np dat = (Return (Inl e), c', w')))"
proof -
  have stored: "conn c1 = Some cn" and addr: "tcpAddr c1 = tcpAddr c"
    using getConnection_Inr [OF acq] by simp_all
  have gone: "conn c' = None"
    using c' by simp
  have closed: "\<not> is_open w' cn" and tr: "trace w' = trace wx @ [EvClose cn]"
    using w' by (simp_all add: conn_Close_world)
  have "getConnection c' w' = dialAndStore c' w'"
    using gone by (simp add: getConnection_def)
  then have redial: "trace (snd (snd (getConnection c' w'))) = trace w' @ [EvDial (tcpAddr c)]"
    using DialTCP_trace [of "tcpAddr c" w'] c' addr
    by (simp add: dialAndStore_def split: prod.splits sum.splits)
  note down = closeAndReturn_Some [OF stored]
  have wrfail: "conn_Write cn payload w1 = (Inl e, wx) \<longrightarrow>
            trace wx = trace w1 @ [EvWrite cn payload] \<and>
            (DecodeString (BuildHealthCheckRequest (stn c)) = Inr payload \<longrightarrow>
               HealthCheck c w = (Return (Some e), c', w')) \<and>
            (DecodeString (BuildReadRequest (stn c) d off np) = Inr payload \<longrightarrow>
               Read c w d off np = (Return (Inl e), c', w')) \<and>
            (DecodeString (BuildBitReadRequest (stn c) d off np) = Inr payload \<longrightarrow>
               BitRead c w d off np = (Return (Inl e), c', w')) \<and>
            (DecodeString (BuildWriteRequest (stn c) d off np dat) = Inr payload \<longrightarrow>
               Write c w d off np dat = (Return (Inl e), c', w'))"
    using acq c' w' conn_Write_Inl(3) [of cn payload w1 e wx]
    by (simp add: HealthCheck_def Read_def BitRead_def Write_def down)
  have rfail: "conn_Write cn payload w1 = (Inr n, w2) \<and> conn_Read cn buf w2 = (Inl e, wx) \<longrightarrow>
            trace wx = trace w1 @ [EvWrite cn payload, EvRead cn (length buf)] \<and>
            (DecodeString (BuildHealthCheckRequest (stn c)) = Inr payload \<and>
             buf = replicate 30 0 \<longrightarrow>
               HealthCheck c w = (Return (Some e), c', w')) \<and>
            (DecodeString (BuildReadRequest (stn c) d off np) = Inr payload \<and>
             make_bytes w2 (22 + 2 * np) = Return buf \<longrightarrow>
               Read c w d off np = (Return (Inl e), c', w')) \<and>
            (DecodeString (BuildBitReadRequest (stn c) d off np) = Inr payload \<and>
             make_bytes w2 (22 + 2 * np) = Return buf \<longrightarrow>
               BitRead c w d off np = (Return (Inl e), c', w')) \<and>
            (DecodeString (BuildWriteRequest (stn c) d off np dat) = Inr payload \<and>
             buf = replicate 22 0 \<longrightarrow>
               Write c w d off np dat = (Return (Inl e), c', w'))"
  proof
    assume io: "conn_Write cn payload w1 = (Inr n, w2) \<and> conn_Read cn buf w2 = (Inl e, wx)"
    then have wr: "conn_Write cn payload w1 = (Inr n, w2)"
      and rd: "conn_Read cn buf w2 = (Inl e, wx)"
      by simp_all
    have t: "trace wx = trace w1 @ [EvWrite cn payload, EvRead cn (length buf)]"
      using conn_Write_Inr(4) [OF wr] conn_Read_Inl(3) [OF rd] by simp
    have hc: "DecodeString (BuildHealthCheckRequest (stn c)) = Inr payload \<and>
             buf = replicate 30 0 \<longrightarrow>
               HealthCheck c w = (Return (Some e), c', w')"
      using acq wr rd c' w' by (auto simp: HealthCheck_def down)
    have re: "DecodeString (BuildReadRequest (stn c) d off np) = Inr payload \<and>
             make_bytes w2 (22 + 2 * np) = Return buf \<longrightarrow>
               Read c w d off np = (Return (Inl e), c', w')"
      using acq wr rd c' w' by (auto simp: Read_def down)
    have bi: "DecodeString (BuildBitReadRequest (stn c) d off np) = Inr payload \<and>
             make_bytes w2 (22 + 2 * np) = Return buf \<longrightarrow>
               BitRead c w d off np = (Return (Inl e), c', w')"
      using acq wr rd c' w' by (auto simp: BitRead_def down)
    have wri: "DecodeString (BuildWriteRequest (stn c) d off np dat) = Inr payload \<and>
             buf = replicate 22 0 \<longrightarrow>
               Write c w d off np dat = (Return (Inl e), c', w')"
      using acq wr rd c' w' by (auto simp: Write_def down)
    from t hc re bi wri show "trace wx = trace w1 @ [EvWrite cn payload, EvRead cn (length buf)] \<and>
            (DecodeString (BuildHealthCheckRequest (stn c)) = Inr payload \<and>
             buf = replicate 30 0 \<longrightarrow>
               HealthCheck c w = (Return (Some e), c', w')) \<and>
            (DecodeString (BuildReadRequest (stn c) d off np) = Inr payload \<and>
             make_bytes w2 (22 + 2 * np) = Return buf \<longrightarrow>
               Read c w d off np = (Return (Inl e), c', w')) \<and>
            (DecodeString (BuildBitReadRequest (stn c) d off np) = Inr payload \<and>
             make_bytes w2 (22 + 2 * np) = Return buf \<longrightarrow>
               BitRead c w d off np = (Return (Inl e), c', w')) \<and>
            (DecodeString (BuildWriteRequest (stn c) d off np dat) = Inr payload \<and>
             buf = replicate 22 0 \<longrightarrow>
               Write c w d off np dat = (Return (Inl e), c', w'))"
      by (intro conjI)
  qed
  from gone closed tr redial wrfail rfail show ?thesis
    by (intro conjI)
qed

theorem io_failure_tears_down_witness:
  "Read demo_client (demo_world\<lparr>script := [Succeeds [], Fails 32]\<rparr>) ''D100'' 0 10
     = (Return (Inl (NetError 32)), demo_client\<lparr>conn := None\<rparr>,
        demo_world\<lparr>script := [], socks := [False], trace := [EvDial ''plc:5000'', EvWrite 0 [0x04, 0x01], EvClose 0]\<rparr>) \<and>
   HealthCheck demo_client (demo_world\<lparr>script := [Succeeds [], Succeeds [], Fails 104]\<rparr>)
     = (Return (Some (NetError 104)), demo_client\<lparr>conn := None\<rparr>,
        demo_world\<lparr>script := [], socks := [False], trace := [EvDial ''plc:5000'', EvWrite 0 [0x50, 0], EvRead 0 30, EvClose 0]\<rparr>)"
proof -
  have acq: "getConnection demo_client (demo_world\<lparr>script := [Succeeds [], Fails 32]\<rparr>)
      = (Inr 0, demo_client\<lparr>conn := Some 0\<rparr>,
         demo_world\<lparr>script := [Fails 32], socks := [True], trace := [EvDial ''plc:5000'']\<rparr>)"
    by (simp add: run_defs)
  have wr: "conn_Write 0 [0x04, 0x01]
        (demo_world\<lparr>script := [Fails 32], socks := [True], trace := [EvDial ''plc:5000'']\<rparr>)
      = (Inl (NetError 32),
         demo_world\<lparr>script := [], socks := [True], trace := [EvDial ''plc:5000'', EvWrite 0 [0x04, 0x01]]\<rparr>)"
    by (simp add: run_defs)
  have dec: "DecodeString (BuildReadRequest (stn demo_client) ''D100'' 0 10) = Inr [0x04, 0x01]"
    by (simp add: run_defs)
  have one: "Read demo_client (demo_world\<lparr>script := [Succeeds [], Fails 32]\<rparr>) ''D100'' 0 10
     = (Return (Inl (NetError 32)), demo_client\<lparr>conn := None\<rparr>,
        demo_world\<lparr>script := [], socks := [False], trace := [EvDial ''plc:5000'', EvWrite 0 [0x04, 0x01], EvClose 0]\<rparr>)"
    using io_failure_tears_down [OF acq refl refl,
        where wx = "demo_world\<lparr>script := [], socks := [True], trace := [EvDial ''plc:5000'', EvWrite 0 [0x04, 0x01]]\<rparr>"
          and payload = "[0x04, 0x01]" and e = "NetError 32" and d = "''D100''" and off = 0
          and np = 10]
      wr dec
    by (simp add: run_defs)
  have acq': "getConnection demo_client (demo_world\<lparr>script := [Succeeds [], Succeeds [], Fails 104]\<rparr>)
      = (Inr 0, demo_client\<lparr>conn := Some 0\<rparr>,
         demo_world\<lparr>script := [Succeeds [], Fails 104], socks := [True], trace := [EvDial ''plc:5000'']\<rparr>)"
    by (simp add: run_defs)
  have wr': "conn_Write 0 [0x50, 0]
        (demo_world\<lparr>script := [Succeeds [], Fails 104], socks := [True], trace := [EvDial ''plc:5000'']\<rparr>)
      = (Inr 2,
         demo_world\<lparr>script := [Fails 104], socks := [True], trace := [EvDial ''plc:5000'', EvWrite 0 [0x50, 0]]\<rparr>)"
    by (simp add: run_defs)
  have rd': "conn_Read 0 (replicate 30 0)
        (demo_world\<lparr>script := [Fails 104], socks := [True], trace := [EvDial ''plc:5000'', EvWrite 0 [0x50, 0]]\<rparr>)
      = (Inl (NetError 104),
         demo_world\<lparr>script := [], socks := [True], trace := [EvDial ''plc:5000'', EvWrite 0 [0x50, 0], EvRead 0 30]\<rparr>)"
    by (simp add: run_defs)
  have dec': "DecodeString (BuildHealthCheckRequest (stn demo_client)) = Inr [0x50, 0]"
    by (simp add: run_defs)
  have two: "HealthCheck demo_client (demo_world\<lparr>script := [Succeeds [], Succeeds [], Fails 104]\<rparr>)
     = (Return (Some (NetError 104)), demo_client\<lparr>conn := None\<rparr>,
        demo_world\<lparr>script := [], socks := [False], trace := [EvDial ''plc:5000'', EvWrite 0 [0x50, 0], EvRead 0 30, EvClose 0]\<rparr>)"
    using io_failure_tears_down [OF acq' refl refl,
        where wx = "demo_world\<lparr>script := [], socks := [True], trace := [EvDial ''plc:5000'', EvWrite 0 [0x50, 0], EvRead 0 30]\<rparr>"
          and payload = "[0x50, 0]" and e = "NetError 104" and n = 2
          and ?w2.0 = "demo_world\<lparr>script := [Fails 104], socks := [True], trace := [EvDial ''plc:5000'', EvWrite 0 [0x50, 0]]\<rparr>"
          and buf = "replicate 30 0"]
      wr' rd' dec'
    by (simp add: run_defs)
  from one two show ?thesis
    by (rule conjI)
qed

subsection \<open>The size of what is read\<close>

text \<open>
  C5. In both variants, the bytes that a successful \<^verbatim>\<open>Write\<close> returns are at most 22,
  whatever the arguments.
\<close>

theorem Write_returns_at_most_22:
  assumes "Write c w d off np dat = (Return (Inr bs), c', w') \<or>
           Write_explicit c w d off np dat = (Return (Inr bs), c', w')"
  shows "length bs \<le> 22"
  using assms
proof
  assume "Write c w d off np dat = (Return (Inr bs), c', w')"
  then show ?thesis
    by (auto simp: Write_def split: sum.splits prod.splits
        dest!: closeAndReturn_result conn_Read_Inr(1))
next
  assume "Write_explicit c w d off np dat = (Return (Inr bs), c', w')"
  then show ?thesis
    by (auto simp: Write_explicit_def split: sum.splits prod.splits option.splits
        dest!: conn_Read_Inr(1))
qed

theorem Write_returns_at_most_22_witness:
  "Write demo_client (demo_world\<lparr>script := [Succeeds [], Succeeds [], Succeeds (replicate 40 7)]\<rparr>)
       ''D100'' 0 1 (replicate 100 1)
     = (Return (Inr (replicate 22 7)), demo_client\<lparr>conn := Some 0\<rparr>,
        demo_world\<lparr>script := [], socks := [True],
          trace := [EvDial ''plc:5000'', EvWrite 0 [0x14, 1], EvRead 0 22]\<rparr>) \<and>
   length (replicate 22 (7 :: byte)) \<le> 22"
proof -
  have run:
    "Write demo_client (demo_world\<lparr>script := [Succeeds [], Succeeds [], Succeeds (replicate 40 7)]\<rparr>)
         ''D100'' 0 1 (replicate 100 1)
       = (Return (Inr (replicate 22 7)), demo_client\<lparr>conn := Some 0\<rparr>,
          demo_world\<lparr>script := [], socks := [True],
            trace := [EvDial ''plc:5000'', EvWrite 0 [0x14, 1], EvRead 0 22]\<rparr>)"
    by (simp add: Write_def run_defs)
  from Write_returns_at_most_22 [OF disjI1 [OF run]] run show ?thesis
    by blast
qed

text \<open>
  The length \<^verbatim>\<open>22+2*numPoints\<close> is computed modulo \<open>2^64\<close>; it is the number
  \<open>22 + 2 * numPoints\<close> whenever that number is a value of \<^verbatim>\<open>int64\<close>.
\<close>

lemma buffer_length:
  assumes "- (2 ^ 62) - 11 \<le> sint np" and "22 + 2 * sint np < 2 ^ 63"
  shows "sint (22 + 2 * np :: int64) = 22 + 2 * sint np"
proof -
  have "sint (22 + 2 * np) = signed_take_bit 63 (sint (22 :: int64) + sint (2 * np))"
    by (simp add: sint_word_ariths word_size)
  also have "\<dots> = signed_take_bit 63 (signed_take_bit 63 22 + signed_take_bit 63 (2 * sint np))"
    by (simp add: sint_word_ariths word_size)
  also have "\<dots> = signed_take_bit 63 (22 + 2 * sint np)"
    by (rule signed_take_bit_add)
  also have "\<dots> = 22 + 2 * sint np"
    using assms by (simp add: signed_take_bit_int_eq_self)
  finally show ?thesis .
qed

text \<open>The limits of \<^verbatim>\<open>make\<close> do not change during a call.\<close>

lemma conn_Write_memAvail: "conn_Write s p w = (r, w') \<Longrightarrow> memAvail w' = memAvail w"
  by (auto simp: conn_Write_def next_outcome_def logged_def
      split: if_splits list.splits outcome.splits)

lemma getConnection_memAvail: "getConnection c w = (r, c', w') \<Longrightarrow> memAvail w' = memAvail w"
  by (auto simp: getConnection_def dialAndStore_def DialTCP_def conn_Write_def conn_Close_def
      next_outcome_def logged_def
      split: option.splits prod.splits sum.splits if_splits list.splits outcome.splits)

lemma getConnection_maxAlloc: "getConnection c w = (r, c', w') \<Longrightarrow> maxAlloc w' = maxAlloc w"
  by (auto simp: getConnection_def dialAndStore_def DialTCP_def conn_Write_def conn_Close_def
      next_outcome_def logged_def
      split: option.splits prod.splits sum.splits if_splits list.splits outcome.splits)

lemma conn_Read_trace: "trace (snd (conn_Read s buf w)) = trace w @ [EvRead s (length buf)]"
  by (auto simp: conn_Read_def next_outcome_def logged_def Let_def
      split: list.splits outcome.splits)

text \<open>
  \<^verbatim>\<open>Read\<close> and \<^verbatim>\<open>BitRead\<close> of both variants, once the request has been written, as a
  function of what \<^verbatim>\<open>make\<close> and the read yield.
\<close>

lemma Read_after_write:
  assumes "DecodeString (BuildReadRequest (stn c) d off np) = Inr payload"
    and "getConnection c w = (Inr cn, c1, w1)"
    and "conn_Write cn payload w1 = (Inr n, w2)"
  shows "Read c w d off np =
           (case make_bytes w2 (22 + 2 * np) of
              Panic p \<Rightarrow> (Panic p, c1, w2)
            | Fatal f \<Rightarrow> (Fatal f, c1, w2)
            | Return buf \<Rightarrow>
                (case conn_Read cn buf w2 of
                   (Inl err, w3) \<Rightarrow> closeAndReturn (Inl err) c1 w3
                 | (Inr (readLen, readBuff), w3) \<Rightarrow>
                     (Return (Inr (take readLen readBuff)), c1, w3)))"
  using assms by (simp add: Read_def)

lemma BitRead_after_write:
  assumes "DecodeString (BuildBitReadRequest (stn c) d off np) = Inr payload"
    and "getConnection c w = (Inr cn, c1, w1)"
    and "conn_Write cn payload w1 = (Inr n, w2)"
  shows "BitRead c w d off np =
           (case make_bytes w2 (22 + 2 * np) of
              Panic p \<Rightarrow> (Panic p, c1, w2)
            | Fatal f \<Rightarrow> (Fatal f, c1, w2)
            | Return buf \<Rightarrow>
                (case conn_Read cn buf w2 of
                   (Inl err, w3) \<Rightarrow> closeAndReturn (Inl err) c1 w3
                 | (Inr (readLen, readBuff), w3) \<Rightarrow>
                     (Return (Inr (take readLen readBuff)), c1, w3)))"
  using assms by (simp add: BitRead_def)

lemma Read_explicit_after_write:
  assumes "DecodeString (BuildReadRequest (stn c) d off np) = Inr payload"
    and "conn c = Some cn"
    and "conn_Write cn payload w = (Inr n, w2)"
  shows "Read_explicit c w d off np =
           (case make_bytes w2 (22 + 2 * np) of
              Panic p \<Rightarrow> (Panic p, c, w2)
            | Fatal f \<Rightarrow> (Fatal f, c, w2)
            | Return buf \<Rightarrow>
                (case conn_Read cn buf w2 of
                   (Inl err, w3) \<Rightarrow> (Return (Inl err), c, w3)
                 | (Inr (readLen, readBuff), w3) \<Rightarrow>
                     (Return (Inr (take readLen readBuff)), c, w3)))"
  using assms by (simp add: Read_explicit_def)

lemma BitRead_explicit_after_write:
  assumes "DecodeString (BuildBitReadRequest (stn c) d off np) = Inr payload"
    and "conn c = Some cn"
    and "conn_Write cn payload w = (Inr n, w2)"
  shows "BitRead_explicit c w d off np =
           (case make_bytes w2 (22 + 2 * np) of
              Panic p \<Rightarrow> (Panic p, c, w2)
            | Fatal f \<Rightarrow> (Fatal f, c, w2)
            | Return buf \<Rightarrow>
                (case conn_Read cn buf w2 of
                   (Inl err, w3) \<Rightarrow> (Return (Inl err), c, w3)
                 | (Inr (readLen, readBuff), w3) \<Rightarrow>
                     (Return (Inr (take readLen readBuff)), c, w3)))"
  using assms by (simp add: BitRead_explicit_def)

text \<open>
  What the two variants share from the allocation on: the panic, the fatal error, and
  the result of the read. They differ only in what a failed read does to the client.
\<close>

lemma reads_after_write:
  assumes reach:
      "(getConnection c w = (Inr cn, c1, w1) \<and>
          DecodeString (BuildReadRequest (stn c) d off np) = Inr payload \<and>
          r = Read c w d off np) \<or>
       (getConnection c w = (Inr cn, c1, w1) \<and>
          DecodeString (BuildBitReadRequest (stn c) d off np) = Inr payload \<and>
          r = BitRead c w d off np) \<or>
       (conn c = Some cn \<and> c1 = c \<and> w1 = w \<and>
          DecodeString (BuildReadRequest (stn c) d off np) = Inr payload \<and>
          r = Read_explicit c w d off np) \<or>
       (conn c = Some cn \<and> c1 = c \<and> w1 = w \<and>
          DecodeString (BuildBitReadRequest (stn c) d off np) = Inr payload \<and>
          r = BitRead_explicit c w d off np)"
    and wr: "conn_Write cn payload w1 = (Inr n, w2)"
  shows "maxAlloc w2 = maxAlloc w \<and> memAvail w2 = memAvail w \<and>
         (case make_bytes w2 (22 + 2 * np) of
            Panic p \<Rightarrow> r = (Panic p, c1, w2)
          | Fatal f \<Rightarrow> r = (Fatal f, c1, w2)
          | Return buf \<Rightarrow>
              (case conn_Read cn buf w2 of
                 (Inl err, w3) \<Rightarrow> fst r = Return (Inl err)
               | (Inr (readLen, readBuff), w3) \<Rightarrow>
                   r = (Return (Inr (take readLen readBuff)), c1, w3)))"
  using reach
proof (elim disjE conjE)
  assume a: "getConnection c w = (Inr cn, c1, w1)"
    "DecodeString (BuildReadRequest (stn c) d off np) = Inr payload" "r = Read c w d off np"
  have "conn c1 = Some cn"
    by (rule getConnection_Inr(1) [OF a(1)])
  then show ?thesis
    using Read_after_write [OF a(2) a(1) wr] a(3)
      getConnection_maxAlloc [OF a(1)] getConnection_memAvail [OF a(1)]
      conn_Write_maxAlloc [OF wr] conn_Write_memAvail [OF wr]
    by (simp add: closeAndReturn_def split: ret.splits prod.splits sum.splits)
next
  assume a: "getConnection c w = (Inr cn, c1, w1)"
    "DecodeString (BuildBitReadRequest (stn c) d off np) = Inr payload" "r = BitRead c w d off np"
  have "conn c1 = Some cn"
    by (rule getConnection_Inr(1) [OF a(1)])
  then show ?thesis
    using BitRead_after_write [OF a(2) a(1) wr] a(3)
      getConnection_maxAlloc [OF a(1)] getConnection_memAvail [OF a(1)]
      conn_Write_maxAlloc [OF wr] conn_Write_memAvail [OF wr]
    by (simp add: closeAndReturn_def split: ret.splits prod.splits sum.splits)
next
  assume a: "conn c = Some cn" "c1 = c" "w1 = w"
    "DecodeString (BuildReadRequest (stn c) d off np) = Inr payload" "r = Read_explicit c w d off np"
  have wr': "conn_Write cn payload w = (Inr n, w2)"
    using wr a(3) by simp
  show ?thesis
    using Read_explicit_after_write [OF a(4) a(1) wr'] a(2,3,5)
      conn_Write_maxAlloc [OF wr'] conn_Write_memAvail [OF wr']
    by (simp split: ret.splits prod.splits sum.splits)
next
  assume a: "conn c = Some cn" "c1 = c" "w1 = w"
    "DecodeString (BuildBitReadRequest (stn c) d off np) = Inr payload"
    "r = BitRead_explicit c w d off np"
  have wr': "conn_Write cn payload w = (Inr n, w2)"
    using wr a(3) by simp
  show ?thesis
    using BitRead_explicit_after_write [OF a(4) a(1) wr'] a(2,3,5)
      conn_Write_maxAlloc [OF wr'] conn_Write_memAvail [OF wr']
    by (simp split: ret.splits prod.splits sum.splits)
qed

text \<open>
  C4, as amended. Let \<open>numPoints \<ge> 0\<close> be such that \<open>22 + 2 * numPoints\<close> is within the
  largest length the runtime accepts (itself below \<open>2^63\<close>) and within what the machine
  can back. In \<^verbatim>\<open>Read\<close> and \<^verbatim>\<open>BitRead\<close> of either variant, once the connection is there
  and the request written, the buffer allocated has exactly \<open>22 + 2 * numPoints\<close>
  bytes, one read is made into it, and when that read succeeds the call returns
  exactly the prefix of the buffer that the read filled, leaving the client and the
  world as they are after the read: its length is the number of bytes the read
  reported, at most the capacity, and its content is what the network delivered, cut
  at the capacity. When the read fails the call returns the error of the read.
\<close>

theorem Read_buffer_and_result:
  assumes nn: "0 \<le> sint np"
    and fit: "22 + 2 * sint np \<le> maxAlloc w"
    and lim: "maxAlloc w < 2 ^ 63"
    and mem: "22 + 2 * sint np \<le> memAvail w"
    and cap: "cap = nat (22 + 2 * sint np)"
    and reach:
      "(getConnection c w = (Inr cn, c1, w1) \<and>
          DecodeString (BuildReadRequest (stn c) d off np) = Inr payload \<and>
          r = Read c w d off np) \<or>
       (getConnection c w = (Inr cn, c1, w1) \<and>
          DecodeString (BuildBitReadRequest (stn c) d off np) = Inr payload \<and>
          r = BitRead c w d off np) \<or>
       (conn c = Some cn \<and> c1 = c \<and> w1 = w \<and>
          DecodeString (BuildReadRequest (stn c) d off np) = Inr payload \<and>
          r = Read_explicit c w d off np) \<or>
       (conn c = Some cn \<and> c1 = c \<and> w1 = w \<and>
          DecodeString (BuildBitReadRequest (stn c) d off np) = Inr payload \<and>
          r = BitRead_explicit c w d off np)"
    and wr: "conn_Write cn payload w1 = (Inr n, w2)"
    and rd: "conn_Read cn (replicate cap 0) w2 = (rr, w3)"
  shows "make_bytes w2 (22 + 2 * np) = Return (replicate cap 0) \<and>
         trace w3 = trace w1 @ [EvWrite cn payload, EvRead cn cap] \<and>
         (case rr of
            Inl err \<Rightarrow> fst r = Return (Inl err)
          | Inr (readLen, readBuff) \<Rightarrow>
              r = (Return (Inr (take readLen readBuff)), c1, w3) \<and>
              length (take readLen readBuff) = readLen \<and>
              readLen \<le> cap \<and> length readBuff = cap \<and>
              (\<exists>delivered rest.
                  script w2 = Succeeds delivered # rest \<and>
                  take readLen readBuff = take cap delivered))"
proof -
  note raw = reads_after_write [OF reach wr]
  have len: "sint (22 + 2 * np) = 22 + 2 * sint np"
    using nn fit lim by (intro buffer_length) simp_all
  have mk: "make_bytes w2 (22 + 2 * np) = Return (replicate cap 0)"
    using raw len nn fit mem cap by (simp add: make_bytes_def)
  have tr: "trace w3 = trace w1 @ [EvWrite cn payload, EvRead cn cap]"
    using conn_Read_trace [of cn "replicate cap 0" w2] rd conn_Write_Inr(4) [OF wr] by simp
  have res: "case rr of
            Inl err \<Rightarrow> fst r = Return (Inl err)
          | Inr (readLen, readBuff) \<Rightarrow>
              r = (Return (Inr (take readLen readBuff)), c1, w3) \<and>
              length (take readLen readBuff) = readLen \<and>
              readLen \<le> cap \<and> length readBuff = cap \<and>
              (\<exists>delivered rest.
                  script w2 = Succeeds delivered # rest \<and>
                  take readLen readBuff = take cap delivered)"
  proof (cases rr)
    case (Inl err)
    then show ?thesis
      using raw mk rd by simp
  next
    case (Inr p)
    obtain readLen readBuff where p: "p = (readLen, readBuff)"
      by (cases p)
    have rd': "conn_Read cn (replicate cap 0) w2 = (Inr (readLen, readBuff), w3)"
      using rd Inr p by simp
    have "r = (Return (Inr (take readLen readBuff)), c1, w3)"
      using raw mk rd' by simp
    moreover have "readLen \<le> cap" "length readBuff = cap"
      using conn_Read_Inr(1,2) [OF rd'] by simp_all
    moreover have "\<exists>delivered rest.
                  script w2 = Succeeds delivered # rest \<and>
                  take readLen readBuff = take cap delivered"
      using conn_Read_delivered [OF rd'] by auto
    ultimately show ?thesis
      using Inr p by simp
  qed
  from mk tr res show ?thesis
    by (intro conjI)
qed

theorem Read_buffer_and_result_witness:
  "make_bytes (demo_world\<lparr>script := [Succeeds demo_echo], socks := [True], trace := [EvDial ''plc:5000'', EvWrite 0 [0x04, 0x01]]\<rparr>) (22 + 2 * 10) = Return (replicate 42 0) \<and>
   Read demo_client demo_world ''D100'' 0 10
     = (Return (Inr demo_echo), (demo_client\<lparr>conn := Some 0\<rparr>),
        (demo_world\<lparr>script := [], socks := [True], trace := [EvDial ''plc:5000'', EvWrite 0 [0x04, 0x01], EvRead 0 42]\<rparr>)) \<and>
   length demo_echo = 18"
proof -
  have nn: "0 \<le> sint (10 :: int64)"
    by simp
  have fit: "22 + 2 * sint (10 :: int64) \<le> maxAlloc demo_world"
    by (simp add: demo_world_def)
  have lim: "maxAlloc demo_world < 2 ^ 63"
    by (simp add: demo_world_def)
  have mem: "22 + 2 * sint (10 :: int64) \<le> memAvail demo_world"
    by (simp add: demo_world_def)
  have cap: "42 = nat (22 + 2 * sint (10 :: int64))"
    by simp
  have acq: "getConnection demo_client demo_world
      = (Inr 0, (demo_client\<lparr>conn := Some 0\<rparr>),
         (demo_world\<lparr>script := [Succeeds [], Succeeds demo_echo], socks := [True], trace := [EvDial ''plc:5000'']\<rparr>))"
    by (simp add: run_defs)
  have dec: "DecodeString (BuildReadRequest (stn demo_client) ''D100'' 0 10) = Inr [0x04, 0x01]"
    by (simp add: run_defs)
  have wr: "conn_Write 0 [0x04, 0x01]
        (demo_world\<lparr>script := [Succeeds [], Succeeds demo_echo], socks := [True], trace := [EvDial ''plc:5000'']\<rparr>)
      = (Inr 2,
         (demo_world\<lparr>script := [Succeeds demo_echo], socks := [True], trace := [EvDial ''plc:5000'', EvWrite 0 [0x04, 0x01]]\<rparr>))"
    by (simp add: run_defs)
  have rd: "conn_Read 0 (replicate 42 0)
        (demo_world\<lparr>script := [Succeeds demo_echo], socks := [True], trace := [EvDial ''plc:5000'', EvWrite 0 [0x04, 0x01]]\<rparr>)
      = (Inr (18, demo_echo @ replicate 24 0),
         (demo_world\<lparr>script := [], socks := [True], trace := [EvDial ''plc:5000'', EvWrite 0 [0x04, 0x01], EvRead 0 42]\<rparr>))"
    by (simp add: run_defs demo_echo_def)
  note inst = Read_buffer_and_result [OF nn fit lim mem cap
      disjI1 [OF conjI [OF acq conjI [OF dec refl]]] wr rd]
  from inst show ?thesis
    by (simp add: demo_echo_def)
qed

text \<open>
  C4 as stated fails: \<open>numPoints = 2^63 - 1\<close> is not negative, and the length computed
  in \<^verbatim>\<open>int64\<close> wraps around to 20, so \<^verbatim>\<open>Read\<close> reads into a buffer of 20 bytes.
\<close>

theorem Read_buffer_wraps_counterexample:
  "0 \<le> sint (0x7FFFFFFFFFFFFFFF :: int64) \<and>
   Read demo_client demo_world ''D100'' 0 0x7FFFFFFFFFFFFFFF
     = (Return (Inr demo_echo), demo_client\<lparr>conn := Some 0\<rparr>,
        demo_world\<lparr>script := [], socks := [True],
          trace := [EvDial ''plc:5000'', EvWrite 0 [0x04, 0x01], EvRead 0 20]\<rparr>) \<and>
   22 + 2 * sint (0x7FFFFFFFFFFFFFFF :: int64) = 18446744073709551636"
  by (simp add: Read_def run_defs demo_echo_def)




subsection \<open>The explicit variant's \<^verbatim>\<open>Connect\<close> and \<^verbatim>\<open>Close\<close>\<close>

text \<open>After a \<^verbatim>\<open>Connect\<close> whose dial succeeds the stored connection is open.\<close>

lemma Connect_success:
  assumes "Connect c w = (None, c', w')"
  shows "\<exists>s. conn c' = Some s \<and> is_open w' s"
  using assms
  by (auto simp: Connect_def Let_def split: prod.splits sum.splits dest: DialTCP_Inr(2))

text \<open>After \<^verbatim>\<open>Close\<close> no connection is stored.\<close>

lemma Close_explicit_clears: "conn (fst (snd (Close_explicit c w))) = None"
  by (simp add: Close_explicit_def split: option.splits prod.splits)

text \<open>
  C7. The claim is that after every \<^verbatim>\<open>Connect\<close> the stored connection is absent or
  open. \<^verbatim>\<open>Connect\<close> closes a stored connection without clearing the field, so when the
  dial then fails the client keeps the socket it has just closed: here socket 0 is
  stored and open before the call, and stored and closed after it.
\<close>

theorem Connect_dial_failure_keeps_closed_socket:
  "is_open (demo_world\<lparr>script := [Fails 111], socks := [True]\<rparr>) 0 \<and>
   Connect (demo_client\<lparr>conn := Some 0\<rparr>) (demo_world\<lparr>script := [Fails 111], socks := [True]\<rparr>)
     = (Some (NetError 111), demo_client\<lparr>conn := Some 0\<rparr>,
        demo_world\<lparr>script := [], socks := [False],
          trace := [EvClose 0, EvDial ''plc:5000'']\<rparr>) \<and>
   \<not> is_open (demo_world\<lparr>script := [], socks := [False],
          trace := [EvClose 0, EvDial ''plc:5000'']\<rparr>) 0"
  by (simp add: Connect_def run_defs)

end
